theory Spec2Isabelle
  imports Complex_Main
begin

section \<open>Data model\<close>

text \<open>
  The \<open>users\<close> table of \<open>src/database/models.py\<close>. A row is a record; the nullable
  columns \<open>avatar\<close> and \<open>refresh_token\<close> are options. Time stamps are seconds as reals.
  The column \<open>id\<close> is called \<open>user_id\<close> here, \<open>id\<close> being the identity function of HOL.
\<close>

record user =
  user_id :: nat
  username :: string
  email :: string
  password :: string
  confirmed :: bool
  avatar :: "string option"
  created_at :: real
  refresh_token :: "string option"

text \<open>The pydantic models \<open>UserModel\<close> and \<open>RequestPassword\<close> of \<open>src/schemas.py\<close>.\<close>

record user_model =
  model_username :: string
  model_email :: string
  model_password :: string

record request_password =
  request_email_field :: string
  request_password_field :: string

text \<open>
  What the cache holds under an email: \<open>pickle.dumps(user)\<close>, where \<open>user\<close> is a row or
  \<open>None\<close>. \<open>loads\<close> undoes \<open>dumps\<close>. A pickle is never the empty byte string, so
  \<open>if user_dump:\<close> holds for every stored value.
\<close>

datatype pickled = Pickled "user option"

definition dumps :: "user option \<Rightarrow> pickled" where
  "dumps u = Pickled u"

fun loads :: "pickled \<Rightarrow> user option" where
  "loads (Pickled u) = u"

fun truthy :: "pickled option \<Rightarrow> bool" where
  "truthy None = False"
| "truthy (Some (Pickled u)) = True"

text \<open>The letters handed to \<open>background_tasks.add_task\<close>: address, user name, base URL.\<close>

datatype task =
  Send_email string string string
| Send_email_reset_password string string string

text \<open>
  The state the handlers act on: the rows of the \<open>users\<close> table in insertion order (the
  session \<open>db\<close>), the Redis database \<open>redis_db\<close> keyed by email, and the queued
  background tasks.
\<close>

record state =
  db :: "user list"
  redis_db :: "string \<rightharpoonup> pickled"
  background_tasks :: "task list"

text \<open>
  Every exception of the source is a value. \<open>HTTPException\<close> carries the status code and
  the detail. \<open>KeyError\<close> and \<open>AttributeError\<close> are the uncaught Python errors of a
  missing dictionary key and of an attribute access on \<open>None\<close>; \<open>IntegrityError\<close> is the
  database refusing a second row with the same unique email; \<open>UnknownHashError\<close> is the
  error of the password hashing library; \<open>OverflowError\<close> and \<open>ValueError\<close> are raised by
  \<open>timedelta\<close> and by the sum of a \<open>datetime\<close> and a \<open>timedelta\<close>.
\<close>

datatype error =
  HTTPException nat string
| KeyError string
| AttributeError string
| IntegrityError
| UnknownHashError
| OverflowError
| ValueError

section \<open>The user repository (src/repository/users.py)\<close>

definition get_user_by_email_from_db :: "string \<Rightarrow> user list \<Rightarrow> user option" where
  "get_user_by_email_from_db mail rows = find (\<lambda>u. email u = mail) rows"

definition get_user_by_email :: "string \<Rightarrow> state \<Rightarrow> user option \<times> state" where
  "get_user_by_email mail s =
     (case redis_db s mail of
        None \<Rightarrow>
          (let u = find (\<lambda>u. email u = mail) (db s)
           in (u, s\<lparr>redis_db := (redis_db s)(mail \<mapsto> dumps u)\<rparr>))
      | Some user_dump \<Rightarrow> (loads user_dump, s))"

text \<open>\<open>user_dump = redis_db.get(key); if user_dump: redis_db.delete(key)\<close>\<close>

definition delete_if_cached :: "string \<Rightarrow> state \<Rightarrow> state" where
  "delete_if_cached mail s =
     (if truthy (redis_db s mail) then s\<lparr>redis_db := (redis_db s)(mail := None)\<rparr> else s)"

text \<open>
  \<open>db.commit()\<close> after an attribute of the row returned by \<open>first()\<close> was assigned:
  that row, the first one with the email, is replaced by the changed one.
\<close>

fun commit_row :: "user \<Rightarrow> user list \<Rightarrow> user list" where
  "commit_row u' [] = []"
| "commit_row u' (u # rows) =
     (if email u = email u' then u' # rows else u # commit_row u' rows)"

text \<open>The primary key of a new row: one more than the largest one in the table.\<close>

definition next_id :: "user list \<Rightarrow> nat" where
  "next_id rows = Suc (foldr max (map user_id rows) 0)"

text \<open>
  \<open>create_user\<close>: the new row takes the column defaults (\<open>confirmed = False\<close>,
  \<open>created_at = now()\<close>, \<open>refresh_token = NULL\<close>) and \<open>avatar = ""\<close>; the commit fails
  with \<open>IntegrityError\<close> when the unique email is already in the table.
\<close>

definition create_user :: "user_model \<Rightarrow> real \<Rightarrow> state \<Rightarrow> (error + user) \<times> state" where
  "create_user body now s =
     (let new_user = \<lparr>user_id = next_id (db s), username = model_username body,
                      email = model_email body, password = model_password body,
                      confirmed = False, avatar = Some [], created_at = now,
                      refresh_token = None\<rparr>
      in if model_email body \<in> set (map email (db s)) then (Inl IntegrityError, s)
         else (Inr new_user, delete_if_cached (email new_user) (s\<lparr>db := db s @ [new_user]\<rparr>)))"

definition update_token :: "user \<Rightarrow> string option \<Rightarrow> state \<Rightarrow> (error + unit) \<times> state" where
  "update_token cache_user token s =
     (case get_user_by_email_from_db (email cache_user) (db s) of
        None \<Rightarrow> (Inl (AttributeError ''refresh_token''), s)
      | Some u \<Rightarrow>
          (let u' = u\<lparr>refresh_token := token\<rparr>
           in (Inr (), delete_if_cached (email u') (s\<lparr>db := commit_row u' (db s)\<rparr>))))"

definition confirmed_email :: "string \<Rightarrow> state \<Rightarrow> (error + unit) \<times> state" where
  "confirmed_email mail s =
     (case get_user_by_email_from_db mail (db s) of
        None \<Rightarrow> (Inl (AttributeError ''confirmed''), s)
      | Some u \<Rightarrow>
          (let u' = u\<lparr>confirmed := True\<rparr>
           in (Inr (), delete_if_cached mail (s\<lparr>db := commit_row u' (db s)\<rparr>))))"

definition update_password :: "user \<Rightarrow> string \<Rightarrow> state \<Rightarrow> (error + unit) \<times> state" where
  "update_password cache_user pw s =
     (case get_user_by_email_from_db (email cache_user) (db s) of
        None \<Rightarrow> (Inl (AttributeError ''password''), s)
      | Some u \<Rightarrow>
          (let u' = u\<lparr>password := pw\<rparr>
           in (Inr (), delete_if_cached (email u') (s\<lparr>db := commit_row u' (db s)\<rparr>))))"

definition update_avatar :: "string \<Rightarrow> string \<Rightarrow> state \<Rightarrow> (error + user) \<times> state" where
  "update_avatar mail url s =
     (case get_user_by_email_from_db mail (db s) of
        None \<Rightarrow> (Inl (AttributeError ''avatar''), s)
      | Some u \<Rightarrow>
          (let u' = u\<lparr>avatar := Some url\<rparr>
           in (Inr u', delete_if_cached mail (s\<lparr>db := commit_row u' (db s)\<rparr>))))"

section \<open>The authentication service (src/services/auth.py)\<close>

text \<open>
  The claims of a token are a dictionary from claim names to strings or time stamps.
\<close>

datatype claim = Str string | Time real

type_synonym payload = "string \<rightharpoonup> claim"

text \<open>
  The libraries the service calls, with the settings \<open>SECRET_KEY\<close> and \<open>ALGORITHM\<close>
  already applied, are parameters of the model:
  \<^item> \<open>jwt_encode\<close> is \<open>jwt.encode(_, SECRET_KEY, algorithm=ALGORITHM)\<close>;
  \<^item> \<open>jwt_decode\<close> is \<open>jwt.decode(_, SECRET_KEY, algorithms=[ALGORITHM])\<close> at the time
    of the call, \<open>None\<close> standing for a raised \<open>JWTError\<close> (bad signature, expiry,
    malformed token);
  \<^item> \<open>pwd_verify\<close> and \<open>pwd_hash\<close> are \<open>pwd_context.verify\<close> and \<open>pwd_context.hash\<close>
    of the bcrypt \<open>CryptContext\<close>; \<open>pwd_verify\<close> may raise.
\<close>

record env =
  jwt_encode :: "payload \<Rightarrow> string"
  jwt_decode :: "string \<Rightarrow> payload option"
  pwd_verify :: "string \<Rightarrow> string \<Rightarrow> error + bool"
  pwd_hash :: "string \<Rightarrow> string"

text \<open>
  \<open>jwt.decode\<close> checks the registered claims as well: a \<open>sub\<close> claim that is present
  and not a string is a \<open>JWTClaimsError\<close>, which is a \<open>JWTError\<close>.
\<close>

definition decode_claims :: "env \<Rightarrow> string \<Rightarrow> payload option" where
  "decode_claims E token =
     (case jwt_decode E token of
        None \<Rightarrow> None
      | Some p \<Rightarrow> (case p ''sub'' of Some (Time t) \<Rightarrow> None | _ \<Rightarrow> Some p))"

definition verify_password :: "env \<Rightarrow> string \<Rightarrow> string \<Rightarrow> error + bool" where
  "verify_password E plain_password hashed_password =
     pwd_verify E plain_password hashed_password"

definition get_password_hash :: "env \<Rightarrow> string \<Rightarrow> string" where
  "get_password_hash E pw = pwd_hash E pw"

text \<open>
  \<open>timedelta(minutes=15)\<close> and \<open>timedelta(days=7)\<close> in seconds.
\<close>

definition minutes_15 :: real where
  "minutes_15 = 15 * 60"

definition days_7 :: real where
  "days_7 = 7 * 24 * 60 * 60"

text \<open>
  The argument \<open>expires_delta_sec\<close> is a Python float: a finite number, an infinity or
  NaN. A finite float is taken as the real number it stands for. \<open>if x:\<close> is false for
  zero only.
\<close>

datatype py_float = Finite real | Infinity | Neg_infinity | NaN

fun float_truthy :: "py_float \<Rightarrow> bool" where
  "float_truthy (Finite d) = (d \<noteq> 0)"
| "float_truthy Infinity = True"
| "float_truthy Neg_infinity = True"
| "float_truthy NaN = True"

text \<open>
  \<open>timedelta(seconds=x)\<close> holds whole microseconds: the seconds are rounded to the
  nearest microsecond, a tie to the even one. NaN raises \<open>ValueError\<close>; an infinity, and
  a value of more than 999999999 days in magnitude, raise \<open>OverflowError\<close>. The result
  is given in seconds.
\<close>

definition round_half_even :: "real \<Rightarrow> int" where
  "round_half_even x =
     (let f = \<lfloor>x\<rfloor>; r = x - of_int f
      in if r < 1 / 2 then f
         else if 1 / 2 < r then f + 1
         else if even f then f else f + 1)"

definition timedelta_seconds :: "py_float \<Rightarrow> error + real" where
  "timedelta_seconds x =
     (case x of
        NaN \<Rightarrow> Inl ValueError
      | Infinity \<Rightarrow> Inl OverflowError
      | Neg_infinity \<Rightarrow> Inl OverflowError
      | Finite d \<Rightarrow>
          (let us = round_half_even (d * 1000000);
               days = us div 86400000000
           in if days < - 999999999 \<or> 999999999 < days then Inl OverflowError
              else Inr (of_int us / 1000000)))"

text \<open>
  A \<open>datetime\<close> is the number of seconds since 1970-01-01 00:00:00 on its own calendar;
  its range is from 0001-01-01 00:00:00 to 9999-12-31 23:59:59.999999, and a sum outside
  the range raises \<open>OverflowError\<close>.
\<close>

definition datetime_add :: "real \<Rightarrow> real \<Rightarrow> error + real" where
  "datetime_add t delta =
     (if - 62135596800 \<le> t + delta \<and> t + delta < 253402300800 then Inr (t + delta)
      else Inl OverflowError)"

text \<open>
  The token makers read the clock twice: \<open>now_expire\<close> is the value of
  \<open>datetime.now()\<close> when \<open>expire\<close> is computed, \<open>now_iat\<close> its value when \<open>iat\<close> is
  set. A clock reading is the time of the call, taken to lie more than seven days inside
  the range of \<open>datetime\<close>, so the sum with a default lifetime is in range; the sum with
  a supplied lifetime is checked. \<open>access_token_expire\<close> and \<open>refresh_token_expire\<close>
  are the \<open>if\<close> statement that sets \<open>expire\<close>.
\<close>

definition access_token_expire :: "real \<Rightarrow> py_float option \<Rightarrow> error + real" where
  "access_token_expire now_expire expires_delta_sec =
     (case expires_delta_sec of
        None \<Rightarrow> Inr (now_expire + minutes_15)
      | Some x \<Rightarrow>
          if float_truthy x then
            (case timedelta_seconds x of
               Inl err \<Rightarrow> Inl err
             | Inr delta \<Rightarrow> datetime_add now_expire delta)
          else Inr (now_expire + minutes_15))"

definition create_access_token ::
  "env \<Rightarrow> real \<Rightarrow> real \<Rightarrow> payload \<Rightarrow> py_float option \<Rightarrow> error + string" where
  "create_access_token E now_expire now_iat data_payload expires_delta_sec =
     (case access_token_expire now_expire expires_delta_sec of
        Inl err \<Rightarrow> Inl err
      | Inr expire \<Rightarrow>
          Inr (jwt_encode E
                 (data_payload(''iat'' \<mapsto> Time now_iat, ''exp'' \<mapsto> Time expire,
                               ''scope'' \<mapsto> Str ''access_token''))))"

definition refresh_token_expire :: "real \<Rightarrow> py_float option \<Rightarrow> error + real" where
  "refresh_token_expire now_expire expires_delta_sec =
     (case expires_delta_sec of
        None \<Rightarrow> Inr (now_expire + days_7)
      | Some x \<Rightarrow>
          if float_truthy x then
            (case timedelta_seconds x of
               Inl err \<Rightarrow> Inl err
             | Inr delta \<Rightarrow> datetime_add now_expire delta)
          else Inr (now_expire + days_7))"

definition create_refresh_token ::
  "env \<Rightarrow> real \<Rightarrow> real \<Rightarrow> payload \<Rightarrow> py_float option \<Rightarrow> error + string" where
  "create_refresh_token E now_expire now_iat data_payload expires_delta_sec =
     (case refresh_token_expire now_expire expires_delta_sec of
        Inl err \<Rightarrow> Inl err
      | Inr expire \<Rightarrow>
          Inr (jwt_encode E
                 (data_payload(''iat'' \<mapsto> Time now_iat, ''exp'' \<mapsto> Time expire,
                               ''scope'' \<mapsto> Str ''refresh_token''))))"

text \<open>\<open>create_email_token\<close> takes the data only: it has no lifetime argument and sets no scope.\<close>

definition email_token_payload :: "real \<Rightarrow> real \<Rightarrow> payload \<Rightarrow> payload" where
  "email_token_payload now_expire now_iat data =
     (let expire = now_expire + days_7
      in data(''iat'' \<mapsto> Time now_iat, ''exp'' \<mapsto> Time expire))"

definition create_email_token :: "env \<Rightarrow> real \<Rightarrow> real \<Rightarrow> payload \<Rightarrow> string" where
  "create_email_token E now_expire now_iat data =
     jwt_encode E (email_token_payload now_expire now_iat data)"

text \<open>
  In the three readers below \<open>payload['scope']\<close> and \<open>payload['sub']\<close> raise
  \<open>KeyError\<close> on a missing key; only \<open>JWTError\<close> is caught. The branch for a \<open>sub\<close>
  that is a time stamp is never taken after \<open>decode_claims\<close>; it is given the result of
  the \<open>JWTError\<close> handler.
\<close>

definition decode_refresh_token :: "env \<Rightarrow> string \<Rightarrow> error + string" where
  "decode_refresh_token E token =
     (case decode_claims E token of
        None \<Rightarrow> Inl (HTTPException 401 ''Could not validate credentials'')
      | Some p \<Rightarrow>
          (case p ''scope'' of
             None \<Rightarrow> Inl (KeyError ''scope'')
           | Some sc \<Rightarrow>
               if sc = Str ''refresh_token'' then
                 (case p ''sub'' of
                    None \<Rightarrow> Inl (KeyError ''sub'')
                  | Some (Str mail) \<Rightarrow> Inr mail
                  | Some (Time t) \<Rightarrow> Inl (HTTPException 401 ''Could not validate credentials''))
               else Inl (HTTPException 401 ''Invalid scope for token'')))"

definition credentials_exception :: error where
  "credentials_exception = HTTPException 401 ''Could not validate credentials''"

definition get_current_user :: "env \<Rightarrow> string \<Rightarrow> state \<Rightarrow> (error + user) \<times> state" where
  "get_current_user E token s =
     (case decode_claims E token of
        None \<Rightarrow> (Inl credentials_exception, s)
      | Some p \<Rightarrow>
          (case p ''scope'' of
             None \<Rightarrow> (Inl (KeyError ''scope''), s)
           | Some sc \<Rightarrow>
               if sc = Str ''access_token'' then
                 (case p ''sub'' of
                    None \<Rightarrow> (Inl (KeyError ''sub''), s)
                  | Some (Time t) \<Rightarrow> (Inl credentials_exception, s)
                  | Some (Str mail) \<Rightarrow>
                      (case get_user_by_email mail s of
                         (None, s') \<Rightarrow> (Inl credentials_exception, s')
                       | (Some u, s') \<Rightarrow> (Inr u, s')))
               else (Inl credentials_exception, s)))"

definition get_email_from_token :: "env \<Rightarrow> string \<Rightarrow> error + string" where
  "get_email_from_token E token =
     (case decode_claims E token of
        None \<Rightarrow> Inl (HTTPException 422 ''Invalid token for email verification'')
      | Some p \<Rightarrow>
          (case p ''sub'' of
             None \<Rightarrow> Inl (KeyError ''sub'')
           | Some (Str mail) \<Rightarrow> Inr mail
           | Some (Time t) \<Rightarrow> Inl (HTTPException 422 ''Invalid token for email verification'')))"

section \<open>The routes (src/routes/auth.py)\<close>

text \<open>
  The bodies of the responses. The handlers are named after their paths, since the
  source defines \<open>signup\<close> and \<open>request_email\<close> twice and \<open>refresh_token\<close> and
  \<open>confirmed_email\<close> name a column and a repository function as well.
  A handler returns its result and the state it leaves, also when it raises.
  \<open>clock k\<close> is reading number \<open>k\<close> of \<open>datetime.now()\<close> during the call.
\<close>

datatype response =
  User_created user string
| Tokens string string string
| Message string
| Email_message string string

definition route_signup ::
  "env \<Rightarrow> real \<Rightarrow> user_model \<Rightarrow> string \<Rightarrow> state \<Rightarrow> (error + response) \<times> state" where
  "route_signup E now body base_url s =
     (case get_user_by_email (model_email body) s of
        (Some exist_user, s1) \<Rightarrow> (Inl (HTTPException 409 ''Account already exists''), s1)
      | (None, s1) \<Rightarrow>
          (case create_user (body\<lparr>model_password := get_password_hash E (model_password body)\<rparr>)
                  now s1 of
             (Inl err, s2) \<Rightarrow> (Inl err, s2)
           | (Inr new_user, s2) \<Rightarrow>
               (Inr (User_created new_user
                       ''User successfully created. Check your email for confirmation.''),
                s2\<lparr>background_tasks := background_tasks s2 @
                      [Send_email (email new_user) (username new_user) base_url]\<rparr>)))"

definition route_login ::
  "env \<Rightarrow> (nat \<Rightarrow> real) \<Rightarrow> string \<Rightarrow> string \<Rightarrow> state \<Rightarrow> (error + response) \<times> state" where
  "route_login E clock form_username form_password s =
     (case get_user_by_email form_username s of
        (None, s1) \<Rightarrow> (Inl (HTTPException 401 ''Invalid email''), s1)
      | (Some u, s1) \<Rightarrow>
          if \<not> confirmed u then (Inl (HTTPException 401 ''Email not confirmed''), s1)
          else
            (case verify_password E form_password (password u) of
               Inl err \<Rightarrow> (Inl err, s1)
             | Inr ok \<Rightarrow>
                 if \<not> ok then (Inl (HTTPException 401 ''Invalid password''), s1)
                 else
                   (case create_access_token E (clock 0) (clock 1)
                           [''sub'' \<mapsto> Str (email u)] None of
                      Inl err \<Rightarrow> (Inl err, s1)
                    | Inr access_token \<Rightarrow>
                        (case create_refresh_token E (clock 2) (clock 3)
                                [''sub'' \<mapsto> Str (email u)] None of
                           Inl err \<Rightarrow> (Inl err, s1)
                         | Inr new_refresh \<Rightarrow>
                             (case update_token u (Some new_refresh) s1 of
                                (Inl err, s2) \<Rightarrow> (Inl err, s2)
                              | (Inr _, s2) \<Rightarrow>
                                  (Inr (Tokens access_token new_refresh ''bearer''), s2))))))"

definition route_refresh_token ::
  "env \<Rightarrow> (nat \<Rightarrow> real) \<Rightarrow> string \<Rightarrow> state \<Rightarrow> (error + response) \<times> state" where
  "route_refresh_token E clock token s =
     (case decode_refresh_token E token of
        Inl err \<Rightarrow> (Inl err, s)
      | Inr mail \<Rightarrow>
          (case get_user_by_email mail s of
             (None, s1) \<Rightarrow> (Inl (AttributeError ''refresh_token''), s1)
           | (Some u, s1) \<Rightarrow>
               if refresh_token u \<noteq> Some token then
                 (case update_token u None s1 of
                    (Inl err, s2) \<Rightarrow> (Inl err, s2)
                  | (Inr _, s2) \<Rightarrow> (Inl (HTTPException 401 ''Invalid refresh token''), s2))
               else
                 (case create_access_token E (clock 0) (clock 1)
                         [''sub'' \<mapsto> Str mail] None of
                    Inl err \<Rightarrow> (Inl err, s1)
                  | Inr access_token \<Rightarrow>
                      (case create_refresh_token E (clock 2) (clock 3)
                              [''sub'' \<mapsto> Str mail] None of
                         Inl err \<Rightarrow> (Inl err, s1)
                       | Inr new_refresh \<Rightarrow>
                           (case update_token u (Some new_refresh) s1 of
                              (Inl err, s2) \<Rightarrow> (Inl err, s2)
                            | (Inr _, s2) \<Rightarrow>
                                (Inr (Tokens access_token new_refresh ''bearer''), s2))))))"

definition route_confirmed_email ::
  "env \<Rightarrow> string \<Rightarrow> state \<Rightarrow> (error + response) \<times> state" where
  "route_confirmed_email E token s =
     (case get_email_from_token E token of
        Inl err \<Rightarrow> (Inl err, s)
      | Inr mail \<Rightarrow>
          (case get_user_by_email mail s of
             (None, s1) \<Rightarrow> (Inl (HTTPException 400 ''Verification error''), s1)
           | (Some u, s1) \<Rightarrow>
               if confirmed u then (Inr (Message ''Your email is already confirmed''), s1)
               else
                 (case confirmed_email mail s1 of
                    (Inl err, s2) \<Rightarrow> (Inl err, s2)
                  | (Inr _, s2) \<Rightarrow> (Inr (Message ''Email confirmed''), s2))))"

definition route_request_email ::
  "string \<Rightarrow> string \<Rightarrow> state \<Rightarrow> (error + response) \<times> state" where
  "route_request_email body_email base_url s =
     (case get_user_by_email body_email s of
        (None, s1) \<Rightarrow> (Inr (Message ''Check your email for confirmation.''), s1)
      | (Some u, s1) \<Rightarrow>
          if confirmed u then (Inr (Message ''Your email is already confirmed''), s1)
          else (Inr (Message ''Check your email for confirmation.''),
                s1\<lparr>background_tasks := background_tasks s1 @
                      [Send_email (email u) (username u) base_url]\<rparr>))"

definition route_password_reset ::
  "string \<Rightarrow> string \<Rightarrow> state \<Rightarrow> (error + response) \<times> state" where
  "route_password_reset body_email base_url s =
     (case get_user_by_email body_email s of
        (None, s1) \<Rightarrow> (Inr (Message ''Check your email for instruction.''), s1)
      | (Some u, s1) \<Rightarrow>
          (Inr (Message ''Check your email for instruction.''),
           s1\<lparr>background_tasks := background_tasks s1 @
                 [Send_email_reset_password (email u) (username u) base_url]\<rparr>))"

definition route_confirm_password_reset ::
  "env \<Rightarrow> string \<Rightarrow> state \<Rightarrow> (error + response) \<times> state" where
  "route_confirm_password_reset E token s =
     (case get_email_from_token E token of
        Inl err \<Rightarrow> (Inl err, s)
      | Inr mail \<Rightarrow>
          (case get_user_by_email mail s of
             (None, s1) \<Rightarrow> (Inl (HTTPException 400 ''Confirm password reset error''), s1)
           | (Some u, s1) \<Rightarrow> (Inr (Email_message mail ''User confirmed password reset''), s1)))"

definition route_new_password ::
  "env \<Rightarrow> request_password \<Rightarrow> state \<Rightarrow> (error + response) \<times> state" where
  "route_new_password E body s =
     (case get_user_by_email (request_email_field body) s of
        (None, s1) \<Rightarrow> (Inl (HTTPException 400 ''Invalid email''), s1)
      | (Some u, s1) \<Rightarrow>
          (let password_hash = get_password_hash E (request_password_field body)
           in case update_password u password_hash s1 of
                (Inl err, s2) \<Rightarrow> (Inl err, s2)
              | (Inr _, s2) \<Rightarrow> (Inr (Message ''Password updated''), s2)))"

section \<open>Runs of the system\<close>

text \<open>
  The operations that reach the \<open>users\<close> table or the cache: the eight handlers of the
  authentication router, the bearer guard \<open>get_current_user\<close> in front of every contact
  route, and the repository's \<open>update_avatar\<close>. (The contact repository reads
  \<open>user.id\<close> only and writes the \<open>contacts\<close> table only.) Each operation comes with
  the library behaviour and the clock it meets.
\<close>

datatype op =
  Signup real user_model string
| Login string string
| Refresh string
| Confirm_email string
| Request_email string string
| Password_reset string string
| Confirm_password_reset string
| New_password request_password
| Authenticate string
| Update_avatar string string

fun exec :: "env \<Rightarrow> (nat \<Rightarrow> real) \<Rightarrow> op \<Rightarrow> state \<Rightarrow> state" where
  "exec E clock (Signup now body base_url) s = snd (route_signup E now body base_url s)"
| "exec E clock (Login form_username form_password) s =
     snd (route_login E clock form_username form_password s)"
| "exec E clock (Refresh token) s = snd (route_refresh_token E clock token s)"
| "exec E clock (Confirm_email token) s = snd (route_confirmed_email E token s)"
| "exec E clock (Request_email body_email base_url) s =
     snd (route_request_email body_email base_url s)"
| "exec E clock (Password_reset body_email base_url) s =
     snd (route_password_reset body_email base_url s)"
| "exec E clock (Confirm_password_reset token) s = snd (route_confirm_password_reset E token s)"
| "exec E clock (New_password body) s = snd (route_new_password E body s)"
| "exec E clock (Authenticate token) s = snd (get_current_user E token s)"
| "exec E clock (Update_avatar mail url) s = snd (update_avatar mail url s)"

fun run :: "(env \<times> (nat \<Rightarrow> real) \<times> op) list \<Rightarrow> state \<Rightarrow> state" where
  "run [] s = s"
| "run ((E, clock, x) # xs) s = run xs (exec E clock x s)"

text \<open>
  The cache agrees with the table: whatever is cached under an email is what the table
  holds for it. It holds of the empty cache and every operation keeps it.
\<close>

definition cache_consistent :: "state \<Rightarrow> bool" where
  "cache_consistent s \<longleftrightarrow>
     (\<forall>mail v. redis_db s mail = Some (Pickled v) \<longrightarrow>
        v = get_user_by_email_from_db mail (db s))"

definition is_confirm_email :: "op \<Rightarrow> bool" where
  "is_confirm_email x = (case x of Confirm_email token \<Rightarrow> True | _ \<Rightarrow> False)"

text \<open>
  \<open>fresh_lookup mail u' s'\<close>: in \<open>s'\<close> nothing is cached under \<open>mail\<close>, the table holds
  the row \<open>u'\<close> for it, and the next read-through lookup returns that row.
\<close>

definition fresh_lookup :: "string \<Rightarrow> user \<Rightarrow> state \<Rightarrow> bool" where
  "fresh_lookup mail u' s' \<longleftrightarrow>
     redis_db s' mail = None \<and>
     get_user_by_email_from_db mail (db s') = Some u' \<and>
     fst (get_user_by_email mail s') = Some u'"

text \<open>
  \<open>confirmed_of mail s\<close> is the \<open>confirmed\<close> flag of the row the table of \<open>s\<close> holds for
  \<open>mail\<close>, if there is one.
\<close>

definition confirmed_of :: "string \<Rightarrow> state \<Rightarrow> bool option" where
  "confirmed_of mail s = map_option confirmed (get_user_by_email_from_db mail (db s))"

text \<open>
  The tokens login and refresh issue for \<open>mail\<close>: the encodings of the subject, the
  second and fourth clock readings as \<open>iat\<close>, the first and third clock readings plus
  15 minutes and 7 days as \<open>exp\<close>, and the scope.
\<close>

abbreviation new_access_token :: "env \<Rightarrow> (nat \<Rightarrow> real) \<Rightarrow> string \<Rightarrow> string" where
  "new_access_token E clock mail \<equiv>
     jwt_encode E [''sub'' \<mapsto> Str mail, ''iat'' \<mapsto> Time (clock 1),
                   ''exp'' \<mapsto> Time (clock 0 + 900), ''scope'' \<mapsto> Str ''access_token'']"

abbreviation new_refresh_token :: "env \<Rightarrow> (nat \<Rightarrow> real) \<Rightarrow> string \<Rightarrow> string" where
  "new_refresh_token E clock mail \<equiv>
     jwt_encode E [''sub'' \<mapsto> Str mail, ''iat'' \<mapsto> Time (clock 3),
                   ''exp'' \<mapsto> Time (clock 2 + 604800), ''scope'' \<mapsto> Str ''refresh_token'']"

section \<open>Example data\<close>

text \<open>
  A confirmed user, a table holding her row, and that table with her row cached.
\<close>

definition alice :: user where
  "alice = \<lparr>user_id = 1, username = ''alice'', email = ''alice@example.com'',
            password = ''$2b$12$alice'', confirmed = True, avatar = Some [],
            created_at = 0, refresh_token = Some ''old.refresh.token''\<rparr>"

definition alice_stored :: state where
  "alice_stored = \<lparr>db = [alice], redis_db = Map.empty, background_tasks = []\<rparr>"

definition alice_cached :: state where
  "alice_cached = \<lparr>db = [alice], redis_db = [''alice@example.com'' \<mapsto> dumps (Some alice)],
                   background_tasks = []\<rparr>"


definition bob :: user where
  "bob = \<lparr>user_id = 2, username = ''bobby'', email = ''bob@example.com'',
          password = ''$2b$12$bobspassword'', confirmed = False, avatar = Some [],
          created_at = 0, refresh_token = None\<rparr>"

definition bob_stored :: state where
  "bob_stored = \<lparr>db = [bob], redis_db = Map.empty, background_tasks = []\<rparr>"

definition empty_state :: state where
  "empty_state = \<lparr>db = [], redis_db = Map.empty, background_tasks = []\<rparr>"

text \<open>
  An example of the libraries: a signing library that knows four tokens and a bcrypt
  context that, like \<open>CryptContext(schemes=["bcrypt"])\<close>, raises on a digest it cannot
  identify as bcrypt.
\<close>

definition example_env :: env where
  "example_env = \<lparr>
     jwt_encode = (\<lambda>p. case p ''scope'' of Some (Str sc) \<Rightarrow> ''new.'' @ sc | _ \<Rightarrow> ''mail.token''),
     jwt_decode = (\<lambda>t.
       if t = ''old.refresh.token'' then
         Some [''sub'' \<mapsto> Str ''alice@example.com'', ''iat'' \<mapsto> Time 0,
               ''exp'' \<mapsto> Time 604800, ''scope'' \<mapsto> Str ''refresh_token'']
       else if t = ''ghost.refresh.token'' then
         Some [''sub'' \<mapsto> Str ''ghost@example.com'', ''iat'' \<mapsto> Time 0,
               ''exp'' \<mapsto> Time 604800, ''scope'' \<mapsto> Str ''refresh_token'']
       else if t = ''mail.token'' then
         Some (email_token_payload 0 0 [''sub'' \<mapsto> Str ''alice@example.com''])
       else if t = ''nosub.token'' then
         Some [''iat'' \<mapsto> Time 0, ''exp'' \<mapsto> Time 900, ''scope'' \<mapsto> Str ''access_token'']
       else None),
     pwd_verify = (\<lambda>plain digest.
       if take 2 digest = ''$2'' then Inr (digest = ''$2b$12$'' @ plain)
       else Inl UnknownHashError),
     pwd_hash = (\<lambda>pw. ''$2b$12$'' @ pw)\<rparr>"


definition ghost_body :: user_model where
  "ghost_body = \<lparr>model_username = ''ghost'', model_email = ''ghost@example.com'',
                  model_password = ''$2b$12$ghostpassword''\<rparr>"

definition ghost :: user where
  "ghost = \<lparr>user_id = 1, username = ''ghost'', email = ''ghost@example.com'',
            password = ''$2b$12$ghostpassword'', confirmed = False, avatar = Some [],
            created_at = 5, refresh_token = None\<rparr>"

definition example_ops :: "(env \<times> (nat \<Rightarrow> real) \<times> op) list" where
  "example_ops =
     [(example_env, \<lambda>k. 0, Login ''alice@example.com'' ''alice''),
      (example_env, \<lambda>k. 1, Refresh ''old.refresh.token''),
      (example_env, \<lambda>k. 2, Confirm_email ''mail.token''),
      (example_env, \<lambda>k. 3, New_password \<lparr>request_email_field = ''alice@example.com'',
                                           request_password_field = ''another''\<rparr>),
      (example_env, \<lambda>k. 4, Signup 4 ghost_body ''http://localhost/'')]"

section \<open>Facts about the table and the cache\<close>

lemma find_email: "find (\<lambda>u. email u = mail) rows = Some u \<Longrightarrow> email u = mail"
  by (auto simp: find_Some_iff)

lemma find_commit_row_same:
  "find (\<lambda>x. email x = email u') rows = Some u \<Longrightarrow>
   find (\<lambda>x. email x = email u') (commit_row u' rows) = Some u'"
  by (induction rows) (auto split: if_splits)

lemma find_commit_row_other:
  "mail \<noteq> email u' \<Longrightarrow>
   find (\<lambda>x. email x = mail) (commit_row u' rows) = find (\<lambda>x. email x = mail) rows"
  by (induction rows) auto

lemma lookup_email:
  "get_user_by_email_from_db mail rows = Some u \<Longrightarrow> email u = mail"
  unfolding get_user_by_email_from_db_def by (rule find_email)

lemma lookup_commit_row_same:
  "get_user_by_email_from_db (email u') rows = Some u \<Longrightarrow>
   get_user_by_email_from_db (email u') (commit_row u' rows) = Some u'"
  unfolding get_user_by_email_from_db_def by (rule find_commit_row_same)

lemma lookup_commit_row_other:
  "mail \<noteq> email u' \<Longrightarrow>
   get_user_by_email_from_db mail (commit_row u' rows) = get_user_by_email_from_db mail rows"
  by (simp add: get_user_by_email_from_db_def find_commit_row_other)

lemma lookup_append_other:
  "mail \<noteq> email u \<Longrightarrow>
   get_user_by_email_from_db mail (rows @ [u]) = get_user_by_email_from_db mail rows"
  by (induction rows) (auto simp: get_user_by_email_from_db_def)

lemma lookup_append_old:
  "get_user_by_email_from_db mail rows = Some v \<Longrightarrow>
   get_user_by_email_from_db mail (rows @ [u]) = Some v"
  by (induction rows) (auto simp: get_user_by_email_from_db_def)

lemma lookup_None_iff:
  "get_user_by_email_from_db mail rows = None \<longleftrightarrow> mail \<notin> set (map email rows)"
  by (auto simp: get_user_by_email_from_db_def find_None_iff)

lemma redis_delete_if_cached:
  "redis_db (delete_if_cached mail s) = (redis_db s)(mail := None)"
proof (cases "redis_db s mail")
  case None
  then show ?thesis by (auto simp: delete_if_cached_def)
next
  case (Some d)
  then show ?thesis by (cases d) (simp add: delete_if_cached_def)
qed

lemma db_delete_if_cached: "db (delete_if_cached mail s) = db s"
  by (simp add: delete_if_cached_def)

lemma tasks_delete_if_cached:
  "background_tasks (delete_if_cached mail s) = background_tasks s"
  by (simp add: delete_if_cached_def)

lemma get_user_by_email_miss:
  "redis_db s mail = None \<Longrightarrow>
   get_user_by_email mail s =
     (get_user_by_email_from_db mail (db s),
      s\<lparr>redis_db := (redis_db s)(mail \<mapsto> dumps (get_user_by_email_from_db mail (db s)))\<rparr>)"
  by (simp add: get_user_by_email_def get_user_by_email_from_db_def Let_def)

lemma get_user_by_email_hit:
  "redis_db s mail = Some (Pickled v) \<Longrightarrow> get_user_by_email mail s = (v, s)"
  by (simp add: get_user_by_email_def)

lemma db_get_user_by_email: "db (snd (get_user_by_email mail s)) = db s"
  by (simp add: get_user_by_email_def Let_def split: option.splits)

lemma tasks_get_user_by_email:
  "background_tasks (snd (get_user_by_email mail s)) = background_tasks s"
  by (simp add: get_user_by_email_def Let_def split: option.splits)

lemma get_user_by_email_consistent:
  assumes "cache_consistent s"
  shows "fst (get_user_by_email mail s) = get_user_by_email_from_db mail (db s)"
proof (cases "redis_db s mail")
  case None
  then show ?thesis by (simp add: get_user_by_email_miss)
next
  case (Some d)
  obtain v where d: "d = Pickled v" by (cases d)
  with Some assms have "v = get_user_by_email_from_db mail (db s)"
    by (simp add: cache_consistent_def)
  with Some d show ?thesis by (simp add: get_user_by_email_hit)
qed

lemma cache_consistent_get_user_by_email:
  assumes "cache_consistent s"
  shows "cache_consistent (snd (get_user_by_email mail s))"
proof (cases "redis_db s mail")
  case None
  with assms show ?thesis
    by (simp add: get_user_by_email_miss cache_consistent_def dumps_def)
next
  case (Some d)
  with assms show ?thesis by (cases d) (simp add: get_user_by_email_hit)
qed

lemma cache_consistent_commit:
  assumes "cache_consistent s"
  shows "cache_consistent (delete_if_cached (email u') (s\<lparr>db := commit_row u' (db s)\<rparr>))"
  unfolding cache_consistent_def
proof (intro allI impI)
  fix mail v
  let ?s' = "delete_if_cached (email u') (s\<lparr>db := commit_row u' (db s)\<rparr>)"
  assume hit: "redis_db ?s' mail = Some (Pickled v)"
  then have ne: "mail \<noteq> email u'"
    by (auto simp: redis_delete_if_cached)
  with hit have "redis_db s mail = Some (Pickled v)"
    by (simp add: redis_delete_if_cached)
  with assms have "v = get_user_by_email_from_db mail (db s)"
    by (simp add: cache_consistent_def)
  with ne show "v = get_user_by_email_from_db mail (db ?s')"
    by (simp add: db_delete_if_cached lookup_commit_row_other)
qed

lemma cache_consistent_tasks:
  "cache_consistent (s\<lparr>background_tasks := ts\<rparr>) = cache_consistent s"
  by (simp add: cache_consistent_def)

lemma cache_consistent_create_user:
  assumes "cache_consistent s"
  shows "cache_consistent (snd (create_user body now s))"
proof (cases "model_email body \<in> set (map email (db s))")
  case True
  with assms show ?thesis by (simp add: create_user_def)
next
  case False
  define u where "u = \<lparr>user_id = next_id (db s), username = model_username body,
                      email = model_email body, password = model_password body,
                      confirmed = False, avatar = Some [], created_at = now,
                      refresh_token = None\<rparr>"
  have mail_u: "email u = model_email body" by (simp add: u_def)
  from False have s': "snd (create_user body now s) =
      delete_if_cached (model_email body) (s\<lparr>db := db s @ [u]\<rparr>)"
    by (simp add: create_user_def u_def Let_def)
  show ?thesis
    unfolding s' cache_consistent_def
  proof (intro allI impI)
    fix mail v
    assume hit: "redis_db (delete_if_cached (model_email body) (s\<lparr>db := db s @ [u]\<rparr>)) mail
                   = Some (Pickled v)"
    then have ne: "mail \<noteq> model_email body"
      by (auto simp: redis_delete_if_cached)
    with hit have "redis_db s mail = Some (Pickled v)"
      by (simp add: redis_delete_if_cached)
    with assms have "v = get_user_by_email_from_db mail (db s)"
      by (simp add: cache_consistent_def)
    with ne mail_u
    show "v = get_user_by_email_from_db mail
                (db (delete_if_cached (model_email body) (s\<lparr>db := db s @ [u]\<rparr>)))"
      by (simp add: db_delete_if_cached lookup_append_other)
  qed
qed

lemma update_token_found:
  assumes "get_user_by_email_from_db (email cache_user) (db s) = Some u"
  shows "update_token cache_user token s =
           (Inr (), delete_if_cached (email cache_user)
                      (s\<lparr>db := commit_row (u\<lparr>refresh_token := token\<rparr>) (db s)\<rparr>))"
  using assms lookup_email [OF assms] by (simp add: update_token_def Let_def)

lemma confirmed_email_found:
  assumes "get_user_by_email_from_db mail (db s) = Some u"
  shows "confirmed_email mail s =
           (Inr (), delete_if_cached mail (s\<lparr>db := commit_row (u\<lparr>confirmed := True\<rparr>) (db s)\<rparr>))"
  using assms by (simp add: confirmed_email_def Let_def)

lemma update_password_found:
  assumes "get_user_by_email_from_db (email cache_user) (db s) = Some u"
  shows "update_password cache_user pw s =
           (Inr (), delete_if_cached (email cache_user)
                      (s\<lparr>db := commit_row (u\<lparr>password := pw\<rparr>) (db s)\<rparr>))"
  using assms lookup_email [OF assms] by (simp add: update_password_def Let_def)

lemma update_avatar_found:
  assumes "get_user_by_email_from_db mail (db s) = Some u"
  shows "update_avatar mail url s =
           (Inr (u\<lparr>avatar := Some url\<rparr>),
            delete_if_cached mail (s\<lparr>db := commit_row (u\<lparr>avatar := Some url\<rparr>) (db s)\<rparr>))"
  using assms by (simp add: update_avatar_def Let_def)

lemma cache_consistent_update_token:
  assumes "cache_consistent s"
  shows "cache_consistent (snd (update_token cache_user token s))"
proof (cases "get_user_by_email_from_db (email cache_user) (db s)")
  case None
  with assms show ?thesis by (simp add: update_token_def)
next
  case (Some u)
  from lookup_email [OF Some] cache_consistent_commit [OF assms, of "u\<lparr>refresh_token := token\<rparr>"]
  show ?thesis by (simp add: update_token_found [OF Some])
qed

lemma cache_consistent_confirmed_email:
  assumes "cache_consistent s"
  shows "cache_consistent (snd (confirmed_email mail s))"
proof (cases "get_user_by_email_from_db mail (db s)")
  case None
  with assms show ?thesis by (simp add: confirmed_email_def)
next
  case (Some u)
  from lookup_email [OF Some] cache_consistent_commit [OF assms, of "u\<lparr>confirmed := True\<rparr>"]
  show ?thesis by (simp add: confirmed_email_found [OF Some])
qed

lemma cache_consistent_update_password:
  assumes "cache_consistent s"
  shows "cache_consistent (snd (update_password cache_user pw s))"
proof (cases "get_user_by_email_from_db (email cache_user) (db s)")
  case None
  with assms show ?thesis by (simp add: update_password_def)
next
  case (Some u)
  from lookup_email [OF Some] cache_consistent_commit [OF assms, of "u\<lparr>password := pw\<rparr>"]
  show ?thesis by (simp add: update_password_found [OF Some])
qed

lemma cache_consistent_update_avatar:
  assumes "cache_consistent s"
  shows "cache_consistent (snd (update_avatar mail url s))"
proof (cases "get_user_by_email_from_db mail (db s)")
  case None
  with assms show ?thesis by (simp add: update_avatar_def)
next
  case (Some u)
  from lookup_email [OF Some] cache_consistent_commit [OF assms, of "u\<lparr>avatar := Some url\<rparr>"]
  show ?thesis by (simp add: update_avatar_found [OF Some])
qed

lemma after_commit:
  assumes found: "get_user_by_email_from_db mail (db s) = Some u"
    and mail: "email u' = mail"
  defines "s' \<equiv> delete_if_cached mail (s\<lparr>db := commit_row u' (db s)\<rparr>)"
  shows "redis_db s' mail = None"
    and "get_user_by_email_from_db mail (db s') = Some u'"
    and "fst (get_user_by_email mail s') = Some u'"
proof -
  show miss: "redis_db s' mail = None"
    by (simp add: s'_def redis_delete_if_cached)
  from found mail show row: "get_user_by_email_from_db mail (db s') = Some u'"
    using lookup_commit_row_same [of u' "db s" u]
    by (simp add: s'_def db_delete_if_cached)
  from miss row show "fst (get_user_by_email mail s') = Some u'"
    by (simp add: get_user_by_email_miss)
qed

section \<open>Cache invalidation on every mutation\<close>

text \<open>
  Claim C2. Each of the four mutating repository operations on the row of email \<open>mail\<close>
  (\<open>update_token\<close>, \<open>confirmed_email\<close>, \<open>update_password\<close>, \<open>update_avatar\<close>) succeeds
  when the row exists and returns a state in which the cache entry under \<open>mail\<close> is
  deleted, whatever was cached before; the next lookup for \<open>mail\<close> misses the cache and
  returns the changed row of the table.
\<close>

theorem mutation_invalidates_cache:
  assumes found: "get_user_by_email_from_db mail (db s) = Some u"
    and cu: "email cache_user = mail"
  shows "(fst (update_token cache_user token s) = Inr () \<and>
          fresh_lookup mail (u\<lparr>refresh_token := token\<rparr>) (snd (update_token cache_user token s))) \<and>
         (fst (confirmed_email mail s) = Inr () \<and>
          fresh_lookup mail (u\<lparr>confirmed := True\<rparr>) (snd (confirmed_email mail s))) \<and>
         (fst (update_password cache_user pw s) = Inr () \<and>
          fresh_lookup mail (u\<lparr>password := pw\<rparr>) (snd (update_password cache_user pw s))) \<and>
         (fst (update_avatar mail url s) = Inr (u\<lparr>avatar := Some url\<rparr>) \<and>
          fresh_lookup mail (u\<lparr>avatar := Some url\<rparr>) (snd (update_avatar mail url s)))"
proof -
  from found have um: "email u = mail" by (rule lookup_email)
  from found cu have found': "get_user_by_email_from_db (email cache_user) (db s) = Some u"
    by simp
  have 1: "fresh_lookup mail (u\<lparr>refresh_token := token\<rparr>) (snd (update_token cache_user token s))"
    using after_commit [OF found, of "u\<lparr>refresh_token := token\<rparr>"] um cu
    by (simp add: update_token_found [OF found'] fresh_lookup_def)
  have 2: "fresh_lookup mail (u\<lparr>confirmed := True\<rparr>) (snd (confirmed_email mail s))"
    using after_commit [OF found, of "u\<lparr>confirmed := True\<rparr>"] um
    by (simp add: confirmed_email_found [OF found] fresh_lookup_def)
  have 3: "fresh_lookup mail (u\<lparr>password := pw\<rparr>) (snd (update_password cache_user pw s))"
    using after_commit [OF found, of "u\<lparr>password := pw\<rparr>"] um cu
    by (simp add: update_password_found [OF found'] fresh_lookup_def)
  have 4: "fresh_lookup mail (u\<lparr>avatar := Some url\<rparr>) (snd (update_avatar mail url s))"
    using after_commit [OF found, of "u\<lparr>avatar := Some url\<rparr>"] um
    by (simp add: update_avatar_found [OF found] fresh_lookup_def)
  from 1 2 3 4 show ?thesis
    by (simp add: update_token_found [OF found'] confirmed_email_found [OF found]
        update_password_found [OF found'] update_avatar_found [OF found])
qed

theorem mutation_invalidates_cache_witness:
  "get_user_by_email_from_db ''alice@example.com'' (db alice_cached) = Some alice \<and>
   email alice = ''alice@example.com'' \<and>
   redis_db alice_cached ''alice@example.com'' = Some (dumps (Some alice)) \<and>
   fresh_lookup ''alice@example.com'' (alice\<lparr>refresh_token := None\<rparr>)
     (snd (update_token alice None alice_cached)) \<and>
   fresh_lookup ''alice@example.com'' (alice\<lparr>confirmed := True\<rparr>)
     (snd (confirmed_email ''alice@example.com'' alice_cached)) \<and>
   fresh_lookup ''alice@example.com'' (alice\<lparr>password := ''$2b$12$new''\<rparr>)
     (snd (update_password alice ''$2b$12$new'' alice_cached)) \<and>
   fresh_lookup ''alice@example.com'' (alice\<lparr>avatar := Some ''http://img''\<rparr>)
     (snd (update_avatar ''alice@example.com'' ''http://img'' alice_cached))"
proof -
  have found: "get_user_by_email_from_db ''alice@example.com'' (db alice_cached) = Some alice"
    by (simp add: get_user_by_email_from_db_def alice_cached_def alice_def)
  have cu: "email alice = ''alice@example.com''"
    by (simp add: alice_def)
  have cached: "redis_db alice_cached ''alice@example.com'' = Some (dumps (Some alice))"
    by (simp add: alice_cached_def)
  from found cu cached
    mutation_invalidates_cache [OF found cu, where token = None and pw = "''$2b$12$new''"
      and url = "''http://img''"]
  show ?thesis by simp
qed

section \<open>Negative results in the cache\<close>

text \<open>
  Claim C10. On a cache miss the read-through lookup stores the table's answer under
  the email, also when the answer is "no such user" (the pickle of \<open>None\<close>); the
  next lookup for that email returns the cached answer whatever the table holds then,
  and leaves the state as it is. A successful \<open>create_user\<close> returns a state with no
  entry under the new user's email.
\<close>

theorem negative_results_cached:
  "(redis_db s mail = None \<longrightarrow>
      fst (get_user_by_email mail s) = get_user_by_email_from_db mail (db s) \<and>
      redis_db (snd (get_user_by_email mail s)) mail =
        Some (dumps (get_user_by_email_from_db mail (db s))) \<and>
      (get_user_by_email_from_db mail (db s) = None \<longrightarrow>
         redis_db (snd (get_user_by_email mail s)) mail = Some (Pickled None)) \<and>
      (\<forall>rows. get_user_by_email mail ((snd (get_user_by_email mail s))\<lparr>db := rows\<rparr>) =
         (get_user_by_email_from_db mail (db s),
          (snd (get_user_by_email mail s))\<lparr>db := rows\<rparr>))) \<and>
   (\<forall>u s'. create_user body now s = (Inr u, s') \<longrightarrow>
      email u = model_email body \<and> redis_db s' (model_email body) = None)"
proof (intro conjI impI allI)
  assume miss: "redis_db s mail = None"
  let ?r = "get_user_by_email_from_db mail (db s)"
  let ?s' = "snd (get_user_by_email mail s)"
  from miss show "fst (get_user_by_email mail s) = ?r"
    by (simp add: get_user_by_email_miss)
  from miss show stored: "redis_db ?s' mail = Some (dumps ?r)"
    by (simp add: get_user_by_email_miss)
  {
    assume "?r = None"
    with stored show "redis_db ?s' mail = Some (Pickled None)"
      by (simp add: dumps_def)
  }
  fix rows
  from stored have "redis_db (?s'\<lparr>db := rows\<rparr>) mail = Some (Pickled ?r)"
    by (simp add: dumps_def)
  then show "get_user_by_email mail (?s'\<lparr>db := rows\<rparr>) = (?r, ?s'\<lparr>db := rows\<rparr>)"
    by (rule get_user_by_email_hit)
next
  fix u s'
  assume "create_user body now s = (Inr u, s')"
  then show "email u = model_email body"
    by (auto simp: create_user_def Let_def split: if_splits)
next
  fix u s'
  assume "create_user body now s = (Inr u, s')"
  then show "redis_db s' (model_email body) = None"
    by (auto simp: create_user_def Let_def redis_delete_if_cached split: if_splits)
qed

theorem negative_results_cached_witness:
  "redis_db empty_state ''ghost@example.com'' = None \<and>
   get_user_by_email_from_db ''ghost@example.com'' (db empty_state) = None \<and>
   redis_db (snd (get_user_by_email ''ghost@example.com'' empty_state)) ''ghost@example.com'' =
     Some (Pickled None) \<and>
   fst (get_user_by_email ''ghost@example.com''
          ((snd (get_user_by_email ''ghost@example.com'' empty_state))\<lparr>db := [alice]\<rparr>)) = None \<and>
   create_user \<lparr>model_username = ''ghost'', model_email = ''ghost@example.com'',
                model_password = ''$2b$12$ghost''\<rparr> 0
     (snd (get_user_by_email ''ghost@example.com'' empty_state)) =
     (Inr \<lparr>user_id = 1, username = ''ghost'', email = ''ghost@example.com'',
           password = ''$2b$12$ghost'', confirmed = False, avatar = Some [],
           created_at = 0, refresh_token = None\<rparr>,
      \<lparr>db = [\<lparr>user_id = 1, username = ''ghost'', email = ''ghost@example.com'',
           password = ''$2b$12$ghost'', confirmed = False, avatar = Some [],
           created_at = 0, refresh_token = None\<rparr>],
       redis_db = Map.empty, background_tasks = []\<rparr>)"
proof -
  have miss: "redis_db empty_state ''ghost@example.com'' = None"
    by (simp add: empty_state_def)
  have absent: "get_user_by_email_from_db ''ghost@example.com'' (db empty_state) = None"
    by (simp add: empty_state_def get_user_by_email_from_db_def)
  have created: "create_user \<lparr>model_username = ''ghost'', model_email = ''ghost@example.com'',
                model_password = ''$2b$12$ghost''\<rparr> 0
     (snd (get_user_by_email ''ghost@example.com'' empty_state)) =
     (Inr \<lparr>user_id = 1, username = ''ghost'', email = ''ghost@example.com'',
           password = ''$2b$12$ghost'', confirmed = False, avatar = Some [],
           created_at = 0, refresh_token = None\<rparr>,
      \<lparr>db = [\<lparr>user_id = 1, username = ''ghost'', email = ''ghost@example.com'',
           password = ''$2b$12$ghost'', confirmed = False, avatar = Some [],
           created_at = 0, refresh_token = None\<rparr>],
       redis_db = Map.empty, background_tasks = []\<rparr>)"
    by (simp add: empty_state_def get_user_by_email_def create_user_def next_id_def
        delete_if_cached_def dumps_def Let_def)
  from miss absent created
    negative_results_cached [of empty_state "''ghost@example.com''"
      "\<lparr>model_username = ''ghost'', model_email = ''ghost@example.com'',
        model_password = ''$2b$12$ghost''\<rparr>" 0]
  show ?thesis by (simp add: dumps_def)
qed

section \<open>The password reset request\<close>

text \<open>
  Claim C8. The handler of \<open>/password_reset\<close> answers every request with the same
  success message: on any two states, one holding an account with the email and one not,
  the response is the same. (Only the queued letter differs.)
\<close>

theorem password_reset_same_response:
  "fst (route_password_reset body_email base_url s1) =
     fst (route_password_reset body_email base_url s2) \<and>
   fst (route_password_reset body_email base_url s1) =
     Inr (Message ''Check your email for instruction.'')"
proof -
  have "fst (route_password_reset body_email base_url s) =
          Inr (Message ''Check your email for instruction.'')" for s
    by (simp add: route_password_reset_def split: prod.splits option.splits)
  then show ?thesis by simp
qed


section \<open>Token lifetimes\<close>

lemma round_half_even_of_int: "round_half_even (of_int k) = k"
  by (simp add: round_half_even_def)

lemma create_access_token_default:
  "create_access_token E now_expire now_iat data None =
     Inr (jwt_encode E (data(''iat'' \<mapsto> Time now_iat, ''exp'' \<mapsto> Time (now_expire + 900),
                             ''scope'' \<mapsto> Str ''access_token'')))"
  by (simp add: create_access_token_def access_token_expire_def minutes_15_def)

lemma create_refresh_token_default:
  "create_refresh_token E now_expire now_iat data None =
     Inr (jwt_encode E (data(''iat'' \<mapsto> Time now_iat, ''exp'' \<mapsto> Time (now_expire + 604800),
                             ''scope'' \<mapsto> Str ''refresh_token'')))"
  by (simp add: create_refresh_token_def refresh_token_expire_def days_7_def)




text \<open>
  What the \<open>if\<close> statement of \<open>create_access_token\<close> gives on some lifetimes: a supplied
  0 is the default; a billionth of a second rounds to no time at all; a lifetime that
  leaves the range of \<open>datetime\<close> or of \<open>timedelta\<close>, an infinity and NaN raise.
\<close>

lemma access_token_expire_examples:
  "access_token_expire 1000 (Some (Finite 0)) = Inr 1900"
  "access_token_expire 1000 (Some (Finite (1 / 1000000000))) = Inr 1000"
  "access_token_expire 1000 (Some (Finite 1000000000000)) = Inl OverflowError"
  "access_token_expire 1000 (Some (Finite 100000000000000000000)) = Inl OverflowError"
  "access_token_expire 1000 (Some Infinity) = Inl OverflowError"
  "access_token_expire 1000 (Some NaN) = Inl ValueError"
proof -
  show "access_token_expire 1000 (Some (Finite 0)) = Inr 1900"
    by (simp add: access_token_expire_def minutes_15_def)
  have "round_half_even (1 / 1000000000 * 1000000) = 0"
    by (simp add: round_half_even_def Let_def)
  then show "access_token_expire 1000 (Some (Finite (1 / 1000000000))) = Inr 1000"
    by (simp add: access_token_expire_def timedelta_seconds_def datetime_add_def Let_def)
  have "round_half_even (1000000000000 * 1000000) = 1000000000000000000"
    using round_half_even_of_int [of 1000000000000000000] by simp
  then show "access_token_expire 1000 (Some (Finite 1000000000000)) = Inl OverflowError"
    by (simp add: access_token_expire_def timedelta_seconds_def datetime_add_def Let_def)
  have "round_half_even (100000000000000000000 * 1000000) = 100000000000000000000000000"
    using round_half_even_of_int [of 100000000000000000000000000] by simp
  then show "access_token_expire 1000 (Some (Finite 100000000000000000000)) =
      Inl OverflowError"
    by (simp add: access_token_expire_def timedelta_seconds_def Let_def)
  show "access_token_expire 1000 (Some Infinity) = Inl OverflowError"
    by (simp add: access_token_expire_def timedelta_seconds_def)
  show "access_token_expire 1000 (Some NaN) = Inl ValueError"
    by (simp add: access_token_expire_def timedelta_seconds_def)
qed

section \<open>Password verification\<close>

text \<open>
  Claim C5 fails on the code. \<open>verify_password\<close> hands both strings to the hashing
  context and has no handler: whenever the context raises on a digest, as a bcrypt
  context does on one it cannot identify, \<open>verify_password\<close> raises the same error and
  returns no boolean, so not \<open>False\<close>.
\<close>

theorem verify_password_raises:
  assumes "pwd_verify E plain_password hashed_password = Inl err"
  shows "verify_password E plain_password hashed_password = Inl err \<and>
         (\<forall>b. verify_password E plain_password hashed_password \<noteq> Inr b)"
  using assms by (simp add: verify_password_def)

theorem verify_password_raises_witness:
  "pwd_verify example_env ''secret'' ''not-a-bcrypt-digest'' = Inl UnknownHashError \<and>
   verify_password example_env ''secret'' ''not-a-bcrypt-digest'' = Inl UnknownHashError \<and>
   verify_password example_env ''secret'' ''not-a-bcrypt-digest'' \<noteq> Inr False"
proof -
  have raises: "pwd_verify example_env ''secret'' ''not-a-bcrypt-digest'' = Inl UnknownHashError"
    by (simp add: example_env_def)
  from raises verify_password_raises [OF raises] show ?thesis by simp
qed

section \<open>The bearer guard\<close>

lemma decode_claims_sub:
  "decode_claims E token = Some p \<Longrightarrow> p ''sub'' \<noteq> Some (Time t)"
  by (auto simp: decode_claims_def split: option.splits claim.splits)

text \<open>
  What the guard does on every token: a decode error, a scope that is present and not
  \<open>access_token\<close>, and a subject without a user give the 401 credentials exception; a
  token with scope \<open>access_token\<close> and subject \<open>mail\<close> is resolved through the cache and
  gives the user found. A payload without the key \<open>scope\<close>, or with scope
  \<open>access_token\<close> and without the key \<open>sub\<close>, gives \<open>KeyError\<close>.
\<close>

lemma get_current_user_guard:
  "(decode_claims E token = None \<longrightarrow>
      get_current_user E token s = (Inl credentials_exception, s)) \<and>
   (\<forall>p. decode_claims E token = Some p \<longrightarrow>
      (p ''scope'' = None \<longrightarrow> get_current_user E token s = (Inl (KeyError ''scope''), s)) \<and>
      (\<forall>sc. p ''scope'' = Some sc \<and> sc \<noteq> Str ''access_token'' \<longrightarrow>
         get_current_user E token s = (Inl credentials_exception, s)) \<and>
      (p ''scope'' = Some (Str ''access_token'') \<and> p ''sub'' = None \<longrightarrow>
         get_current_user E token s = (Inl (KeyError ''sub''), s)) \<and>
      (\<forall>mail. p ''scope'' = Some (Str ''access_token'') \<and> p ''sub'' = Some (Str mail) \<longrightarrow>
         fst (get_current_user E token s) =
           (case fst (get_user_by_email mail s) of
              None \<Rightarrow> Inl credentials_exception
            | Some u \<Rightarrow> Inr u) \<and>
         snd (get_current_user E token s) = snd (get_user_by_email mail s)))"
  by (auto simp: get_current_user_def split: option.splits prod.splits)

text \<open>
  Claim C3 fails on the code. When the decoded payload has no key \<open>scope\<close>, as has the
  dictionary \<open>create_email_token\<close> encodes for an email-verification token of this
  application, \<open>get_current_user\<close> raises \<open>KeyError\<close>; so it does when the scope is
  \<open>access_token\<close> and the key \<open>sub\<close> is missing. No handler of the function catches
  it: the call does not fail with the 401 \<open>Unauthorized\<close> exception.
\<close>

theorem get_current_user_key_error:
  assumes "decode_claims E token = Some p"
  shows "(p ''scope'' = None \<longrightarrow>
            get_current_user E token s = (Inl (KeyError ''scope''), s)) \<and>
         (p = email_token_payload now_expire now_iat [''sub'' \<mapsto> Str mail] \<longrightarrow>
            get_current_user E token s = (Inl (KeyError ''scope''), s)) \<and>
         (p ''scope'' = Some (Str ''access_token'') \<and> p ''sub'' = None \<longrightarrow>
            get_current_user E token s = (Inl (KeyError ''sub''), s)) \<and>
         KeyError ''scope'' \<noteq> credentials_exception \<and>
         KeyError ''sub'' \<noteq> credentials_exception"
proof -
  have "email_token_payload now_expire now_iat [''sub'' \<mapsto> Str mail] ''scope'' = None"
    by (simp add: email_token_payload_def)
  with assms show ?thesis
    by (auto simp: get_current_user_def credentials_exception_def)
qed

theorem get_current_user_key_error_witness:
  "create_email_token example_env 0 0 [''sub'' \<mapsto> Str ''alice@example.com''] = ''mail.token'' \<and>
   decode_claims example_env ''mail.token'' =
     Some (email_token_payload 0 0 [''sub'' \<mapsto> Str ''alice@example.com'']) \<and>
   get_current_user example_env ''mail.token'' alice_stored =
     (Inl (KeyError ''scope''), alice_stored) \<and>
   decode_claims example_env ''nosub.token'' =
     Some [''iat'' \<mapsto> Time 0, ''exp'' \<mapsto> Time 900, ''scope'' \<mapsto> Str ''access_token''] \<and>
   get_current_user example_env ''nosub.token'' alice_stored =
     (Inl (KeyError ''sub''), alice_stored)"
proof -
  let ?p = "email_token_payload 0 0 [''sub'' \<mapsto> Str ''alice@example.com'']"
  let ?q = "[''iat'' \<mapsto> Time 0, ''exp'' \<mapsto> Time 900, ''scope'' \<mapsto> Str ''access_token'']"
  have enc: "create_email_token example_env 0 0 [''sub'' \<mapsto> Str ''alice@example.com''] =
     ''mail.token''"
    by (simp add: create_email_token_def email_token_payload_def example_env_def)
  have dec: "decode_claims example_env ''mail.token'' = Some ?p"
    by (simp add: decode_claims_def example_env_def email_token_payload_def)
  have dec': "decode_claims example_env ''nosub.token'' = Some ?q"
    by (simp add: decode_claims_def example_env_def)
  have no_scope: "?p ''scope'' = None"
    by (simp add: email_token_payload_def)
  have no_sub: "?q ''scope'' = Some (Str ''access_token'') \<and> ?q ''sub'' = None"
    by simp
  from no_scope get_current_user_key_error [OF dec, of alice_stored 0 0 "''alice@example.com''"]
  have 1: "get_current_user example_env ''mail.token'' alice_stored =
     (Inl (KeyError ''scope''), alice_stored)"
    by blast
  from no_sub get_current_user_key_error [OF dec', of alice_stored 0 0 "''alice@example.com''"]
  have 2: "get_current_user example_env ''nosub.token'' alice_stored =
     (Inl (KeyError ''sub''), alice_stored)"
    by blast
  from enc dec dec' 1 2 show ?thesis by simp
qed

section \<open>Refresh with an unknown subject\<close>

lemma decode_refresh_token_ok:
  assumes "decode_claims E token = Some p"
    and "p ''scope'' = Some (Str ''refresh_token'')"
    and "p ''sub'' = Some (Str mail)"
  shows "decode_refresh_token E token = Inr mail"
  using assms by (simp add: decode_refresh_token_def)

text \<open>
  Claim C9. A refresh token that decodes with scope \<open>refresh_token\<close> to a subject for
  which the lookup finds no user makes the handler raise \<open>AttributeError\<close> at
  \<open>user.refresh_token\<close>: the result is not an \<open>HTTPException\<close>, so not the 401. The
  lookup has cached the absence on the way.
\<close>

theorem refresh_unknown_subject:
  assumes "decode_claims E token = Some p"
    and "p ''scope'' = Some (Str ''refresh_token'')"
    and "p ''sub'' = Some (Str mail)"
    and "fst (get_user_by_email mail s) = None"
  shows "fst (route_refresh_token E clock token s) = Inl (AttributeError ''refresh_token'') \<and>
         (\<forall>code detail. fst (route_refresh_token E clock token s) \<noteq>
            Inl (HTTPException code detail)) \<and>
         snd (route_refresh_token E clock token s) = snd (get_user_by_email mail s)"
proof -
  obtain s1 where look: "get_user_by_email mail s = (None, s1)"
    using assms(4) by (cases "get_user_by_email mail s") simp
  from look decode_refresh_token_ok [OF assms(1-3)]
  have "route_refresh_token E clock token s = (Inl (AttributeError ''refresh_token''), s1)"
    by (simp add: route_refresh_token_def)
  with look show ?thesis by simp
qed

theorem refresh_unknown_subject_witness:
  "decode_claims example_env ''ghost.refresh.token'' =
     Some [''sub'' \<mapsto> Str ''ghost@example.com'', ''iat'' \<mapsto> Time 0,
           ''exp'' \<mapsto> Time 604800, ''scope'' \<mapsto> Str ''refresh_token''] \<and>
   fst (get_user_by_email ''ghost@example.com'' alice_stored) = None \<and>
   fst (route_refresh_token example_env (\<lambda>k. 0) ''ghost.refresh.token'' alice_stored) =
     Inl (AttributeError ''refresh_token'')"
proof -
  have dec: "decode_claims example_env ''ghost.refresh.token'' =
     Some [''sub'' \<mapsto> Str ''ghost@example.com'', ''iat'' \<mapsto> Time 0,
           ''exp'' \<mapsto> Time 604800, ''scope'' \<mapsto> Str ''refresh_token'']"
    by (simp add: decode_claims_def example_env_def)
  have none: "fst (get_user_by_email ''ghost@example.com'' alice_stored) = None"
    by (simp add: get_user_by_email_def alice_stored_def alice_def Let_def)
  from dec none refresh_unknown_subject [OF dec _ _ none, of "\<lambda>k. 0"]
  show ?thesis by simp
qed

section \<open>Refresh-token rotation\<close>

lemma get_user_by_email_found:
  assumes "cache_consistent s"
    and "get_user_by_email_from_db mail (db s) = Some u"
  obtains s1 where "get_user_by_email mail s = (Some u, s1)"
    and "db s1 = db s" and "cache_consistent s1"
proof -
  obtain r s1 where look: "get_user_by_email mail s = (r, s1)"
    by (cases "get_user_by_email mail s")
  from get_user_by_email_consistent [OF assms(1), of mail] look assms(2)
  have "r = Some u" by simp
  moreover from db_get_user_by_email [of mail s] look have "db s1 = db s" by simp
  moreover from cache_consistent_get_user_by_email [OF assms(1), of mail] look
  have "cache_consistent s1" by simp
  ultimately show ?thesis using look that by simp
qed





section \<open>Login\<close>

text \<open>
  Claim C4. In a state whose cache agrees with the table, login fails with 401 and
  \<open>Invalid email\<close> when the table has no row for the email; otherwise with 401 and
  \<open>Email not confirmed\<close> when the row is not confirmed, whatever the password; otherwise
  with 401 and \<open>Invalid password\<close> when the password does not verify. When it verifies,
  login returns an access token and a refresh token for the email, the new refresh token
  is the stored one afterwards, and nothing is cached under the email.
\<close>

theorem login_checks_in_order:
  assumes inv: "cache_consistent s"
  shows
    "(get_user_by_email_from_db form_username (db s) = None \<longrightarrow>
        fst (route_login E clock form_username form_password s) =
          Inl (HTTPException 401 ''Invalid email'')) \<and>
     (\<forall>u. get_user_by_email_from_db form_username (db s) = Some u \<longrightarrow>
        (\<not> confirmed u \<longrightarrow>
           fst (route_login E clock form_username form_password s) =
             Inl (HTTPException 401 ''Email not confirmed'')) \<and>
        (confirmed u \<and> verify_password E form_password (password u) = Inr False \<longrightarrow>
           fst (route_login E clock form_username form_password s) =
             Inl (HTTPException 401 ''Invalid password'')) \<and>
        (confirmed u \<and> verify_password E form_password (password u) = Inr True \<longrightarrow>
           fst (route_login E clock form_username form_password s) =
             Inr (Tokens
                    (new_access_token E clock form_username)
                    (new_refresh_token E clock form_username)
                    ''bearer'') \<and>
           get_user_by_email_from_db form_username
             (db (snd (route_login E clock form_username form_password s))) =
             Some (u\<lparr>refresh_token :=
                       Some (new_refresh_token E clock form_username)\<rparr>) \<and>
           redis_db (snd (route_login E clock form_username form_password s)) form_username =
             None))"
proof (intro conjI impI allI)
  assume absent: "get_user_by_email_from_db form_username (db s) = None"
  obtain r s1 where look: "get_user_by_email form_username s = (r, s1)"
    by (cases "get_user_by_email form_username s")
  from get_user_by_email_consistent [OF inv, of form_username] look absent
  have "r = None" by simp
  with look show "fst (route_login E clock form_username form_password s) =
      Inl (HTTPException 401 ''Invalid email'')"
    by (simp add: route_login_def)
next
  fix u
  assume found: "get_user_by_email_from_db form_username (db s) = Some u"
    and "\<not> confirmed u"
  moreover obtain s1 where "get_user_by_email form_username s = (Some u, s1)"
    using get_user_by_email_found [OF inv found] by blast
  ultimately show "fst (route_login E clock form_username form_password s) =
      Inl (HTTPException 401 ''Email not confirmed'')"
    by (simp add: route_login_def)
next
  fix u
  assume found: "get_user_by_email_from_db form_username (db s) = Some u"
    and "confirmed u \<and> verify_password E form_password (password u) = Inr False"
  moreover obtain s1 where "get_user_by_email form_username s = (Some u, s1)"
    using get_user_by_email_found [OF inv found] by blast
  ultimately show "fst (route_login E clock form_username form_password s) =
      Inl (HTTPException 401 ''Invalid password'')"
    by (simp add: route_login_def)
next
  fix u
  let ?new = "new_refresh_token E clock form_username"
  let ?out = "route_login E clock form_username form_password s"
  assume found: "get_user_by_email_from_db form_username (db s) = Some u"
    and good: "confirmed u \<and> verify_password E form_password (password u) = Inr True"
  obtain s1 where look: "get_user_by_email form_username s = (Some u, s1)"
    and db1: "db s1 = db s"
    using get_user_by_email_found [OF inv found] by blast
  from found have um: "email u = form_username" by (rule lookup_email)
  from found db1 um have found1: "get_user_by_email_from_db (email u) (db s1) = Some u"
    by simp
  from found db1 have found1': "get_user_by_email_from_db form_username (db s1) = Some u"
    by simp
  have um': "email (u\<lparr>refresh_token := Some ?new\<rparr>) = form_username"
    using um by simp
  have out: "?out =
      (Inr (Tokens (new_access_token E clock form_username) ?new ''bearer''),
       delete_if_cached form_username
         (s1\<lparr>db := commit_row (u\<lparr>refresh_token := Some ?new\<rparr>) (db s1)\<rparr>))"
    using look good um
    by (simp add: route_login_def create_access_token_default create_refresh_token_default
        update_token_found [OF found1])
  {
    from out show "fst ?out =
        Inr (Tokens (new_access_token E clock form_username) ?new ''bearer'')"
      by simp
  next
    from after_commit(2) [OF found1' um'] out
    show "get_user_by_email_from_db form_username (db (snd ?out)) =
        Some (u\<lparr>refresh_token := Some ?new\<rparr>)"
      by simp
  next
    from after_commit(1) [OF found1' um'] out
    show "redis_db (snd ?out) form_username = None"
      by simp
  }
qed

theorem login_checks_in_order_witness:
  "cache_consistent empty_state \<and> cache_consistent bob_stored \<and> cache_consistent alice_stored \<and>
   get_user_by_email_from_db ''ghost@example.com'' (db empty_state) = None \<and>
   fst (route_login example_env (\<lambda>k. 0) ''ghost@example.com'' ''secret'' empty_state) =
     Inl (HTTPException 401 ''Invalid email'') \<and>
   get_user_by_email_from_db ''bob@example.com'' (db bob_stored) = Some bob \<and>
   \<not> confirmed bob \<and>
   verify_password example_env ''bobspassword'' (password bob) = Inr True \<and>
   fst (route_login example_env (\<lambda>k. 0) ''bob@example.com'' ''bobspassword'' bob_stored) =
     Inl (HTTPException 401 ''Email not confirmed'') \<and>
   get_user_by_email_from_db ''alice@example.com'' (db alice_stored) = Some alice \<and>
   confirmed alice \<and>
   verify_password example_env ''wrong'' (password alice) = Inr False \<and>
   fst (route_login example_env (\<lambda>k. 0) ''alice@example.com'' ''wrong'' alice_stored) =
     Inl (HTTPException 401 ''Invalid password'') \<and>
   verify_password example_env ''alice'' (password alice) = Inr True \<and>
   fst (route_login example_env (\<lambda>k. 0) ''alice@example.com'' ''alice'' alice_stored) =
     Inr (Tokens ''new.access_token'' ''new.refresh_token'' ''bearer'') \<and>
   get_user_by_email_from_db ''alice@example.com''
     (db (snd (route_login example_env (\<lambda>k. 0) ''alice@example.com'' ''alice'' alice_stored))) =
     Some (alice\<lparr>refresh_token := Some ''new.refresh_token''\<rparr>)"
proof -
  have inv0: "cache_consistent empty_state"
    by (simp add: cache_consistent_def empty_state_def)
  have invb: "cache_consistent bob_stored"
    by (simp add: cache_consistent_def bob_stored_def)
  have inva: "cache_consistent alice_stored"
    by (simp add: cache_consistent_def alice_stored_def)
  have ghost: "get_user_by_email_from_db ''ghost@example.com'' (db empty_state) = None"
    by (simp add: get_user_by_email_from_db_def empty_state_def)
  have fb: "get_user_by_email_from_db ''bob@example.com'' (db bob_stored) = Some bob"
    by (simp add: get_user_by_email_from_db_def bob_stored_def bob_def)
  have fa: "get_user_by_email_from_db ''alice@example.com'' (db alice_stored) = Some alice"
    by (simp add: get_user_by_email_from_db_def alice_stored_def alice_def)
  have cb: "\<not> confirmed bob" by (simp add: bob_def)
  have ca: "confirmed alice" by (simp add: alice_def)
  have vb: "verify_password example_env ''bobspassword'' (password bob) = Inr True"
    by (simp add: verify_password_def example_env_def bob_def)
  have vw: "verify_password example_env ''wrong'' (password alice) = Inr False"
    by (simp add: verify_password_def example_env_def alice_def)
  have va: "verify_password example_env ''alice'' (password alice) = Inr True"
    by (simp add: verify_password_def example_env_def alice_def)
  have new_access: "new_access_token example_env (\<lambda>k. 0) ''alice@example.com'' = ''new.access_token''"
    by (simp add: example_env_def)
  have new_refresh: "new_refresh_token example_env (\<lambda>k. 0) ''alice@example.com'' = ''new.refresh_token''"
    by (simp add: example_env_def)
  from ghost login_checks_in_order [OF inv0, of "''ghost@example.com''" example_env "\<lambda>k. 0"
      "''secret''"]
  have 1: "fst (route_login example_env (\<lambda>k. 0) ''ghost@example.com'' ''secret'' empty_state) =
     Inl (HTTPException 401 ''Invalid email'')"
    by simp
  from fb cb login_checks_in_order [OF invb, of "''bob@example.com''" example_env "\<lambda>k. 0"
      "''bobspassword''"]
  have 2: "fst (route_login example_env (\<lambda>k. 0) ''bob@example.com'' ''bobspassword''
                  bob_stored) =
     Inl (HTTPException 401 ''Email not confirmed'')"
    by simp
  from fa ca vw login_checks_in_order [OF inva, of "''alice@example.com''" example_env "\<lambda>k. 0"
      "''wrong''"]
  have 3: "fst (route_login example_env (\<lambda>k. 0) ''alice@example.com'' ''wrong'' alice_stored) =
     Inl (HTTPException 401 ''Invalid password'')"
    by simp
  from fa ca va new_access new_refresh
    login_checks_in_order [OF inva, of "''alice@example.com''" example_env "\<lambda>k. 0" "''alice''"]
  have 4: "fst (route_login example_env (\<lambda>k. 0) ''alice@example.com'' ''alice'' alice_stored) =
     Inr (Tokens ''new.access_token'' ''new.refresh_token'' ''bearer'') \<and>
     get_user_by_email_from_db ''alice@example.com''
     (db (snd (route_login example_env (\<lambda>k. 0) ''alice@example.com'' ''alice'' alice_stored))) =
     Some (alice\<lparr>refresh_token := Some ''new.refresh_token''\<rparr>)"
    by simp
  from inv0 invb inva ghost fb fa cb ca vb vw va 1 2 3 4 show ?thesis by simp
qed


section \<open>The confirmed flag\<close>

lemma confirmed_of_db: "db s' = db s \<Longrightarrow> confirmed_of mail s' = confirmed_of mail s"
  by (simp add: confirmed_of_def)

lemma confirmed_of_tasks:
  "confirmed_of mail (s\<lparr>background_tasks := ts\<rparr>) = confirmed_of mail s"
  by (simp add: confirmed_of_def)

lemma confirmed_of_get_user_by_email:
  "confirmed_of mail (snd (get_user_by_email m s)) = confirmed_of mail s"
  by (simp add: confirmed_of_def db_get_user_by_email)

lemma confirmed_of_commit:
  assumes "get_user_by_email_from_db (email u') (db s) = Some u"
  shows "confirmed_of mail (delete_if_cached m (s\<lparr>db := commit_row u' (db s)\<rparr>)) =
           (if mail = email u' then Some (confirmed u') else confirmed_of mail s)"
  using lookup_commit_row_same [OF assms] lookup_commit_row_other [of mail u' "db s"]
  by (simp add: confirmed_of_def db_delete_if_cached)

lemma confirmed_of_update_token:
  "confirmed_of mail (snd (update_token cache_user token s)) = confirmed_of mail s"
proof (cases "get_user_by_email_from_db (email cache_user) (db s)")
  case None
  then show ?thesis by (simp add: update_token_def)
next
  case (Some u)
  from Some lookup_email [OF Some]
  have "get_user_by_email_from_db (email (u\<lparr>refresh_token := token\<rparr>)) (db s) = Some u"
    by simp
  from confirmed_of_commit [OF this, of mail] Some lookup_email [OF Some]
  show ?thesis by (auto simp: update_token_found [OF Some] confirmed_of_def)
qed

lemma confirmed_of_update_password:
  "confirmed_of mail (snd (update_password cache_user pw s)) = confirmed_of mail s"
proof (cases "get_user_by_email_from_db (email cache_user) (db s)")
  case None
  then show ?thesis by (simp add: update_password_def)
next
  case (Some u)
  from Some lookup_email [OF Some]
  have "get_user_by_email_from_db (email (u\<lparr>password := pw\<rparr>)) (db s) = Some u"
    by simp
  from confirmed_of_commit [OF this, of mail] Some lookup_email [OF Some]
  show ?thesis by (auto simp: update_password_found [OF Some] confirmed_of_def)
qed

lemma confirmed_of_update_avatar:
  "confirmed_of mail (snd (update_avatar m url s)) = confirmed_of mail s"
proof (cases "get_user_by_email_from_db m (db s)")
  case None
  then show ?thesis by (simp add: update_avatar_def)
next
  case (Some u)
  from Some lookup_email [OF Some]
  have "get_user_by_email_from_db (email (u\<lparr>avatar := Some url\<rparr>)) (db s) = Some u"
    by simp
  from confirmed_of_commit [OF this, of mail] Some lookup_email [OF Some]
  show ?thesis by (auto simp: update_avatar_found [OF Some] confirmed_of_def)
qed

lemma confirmed_of_confirmed_email:
  "confirmed_of mail (snd (confirmed_email m s)) =
     (if mail = m \<and> confirmed_of m s \<noteq> None then Some True else confirmed_of mail s)"
proof (cases "get_user_by_email_from_db m (db s)")
  case None
  then show ?thesis by (simp add: confirmed_email_def confirmed_of_def)
next
  case (Some u)
  from Some lookup_email [OF Some]
  have "get_user_by_email_from_db (email (u\<lparr>confirmed := True\<rparr>)) (db s) = Some u"
    by simp
  from confirmed_of_commit [OF this, of mail] Some lookup_email [OF Some]
  show ?thesis by (auto simp: confirmed_email_found [OF Some] confirmed_of_def)
qed

lemma lookup_append_new:
  "email u \<notin> set (map email rows) \<Longrightarrow>
   get_user_by_email_from_db (email u) (rows @ [u]) = Some u"
  by (induction rows) (auto simp: get_user_by_email_from_db_def)

lemma confirmed_of_create_user:
  assumes "confirmed_of mail s = Some b"
  shows "confirmed_of mail (snd (create_user body now s)) = Some b"
proof -
  from assms obtain v where "get_user_by_email_from_db mail (db s) = Some v"
    and "confirmed v = b"
    by (auto simp: confirmed_of_def)
  then show ?thesis
    by (simp add: create_user_def Let_def confirmed_of_def db_delete_if_cached
        lookup_append_old)
qed

lemma create_user_unconfirmed:
  assumes "create_user body now s = (Inr u, s')"
  shows "confirmed u = False" and "confirmed_of (model_email body) s' = Some False"
proof -
  from assms have fresh: "model_email body \<notin> set (map email (db s))"
    by (auto simp: create_user_def Let_def split: if_splits)
  from assms fresh have u: "u = \<lparr>user_id = next_id (db s), username = model_username body,
      email = model_email body, password = model_password body, confirmed = False,
      avatar = Some [], created_at = now, refresh_token = None\<rparr>"
    by (simp add: create_user_def Let_def)
  then show "confirmed u = False" by simp
  from u have mail: "email u = model_email body" by simp
  from assms fresh u have "db s' = db s @ [u]"
    by (auto simp: create_user_def Let_def db_delete_if_cached)
  with lookup_append_new [of u "db s"] fresh mail u
  show "confirmed_of (model_email body) s' = Some False"
    by (simp add: confirmed_of_def)
qed

lemmas confirmed_of_kept =
  confirmed_of_get_user_by_email confirmed_of_update_token confirmed_of_update_password
  confirmed_of_update_avatar confirmed_of_tasks

lemma confirmed_of_route_login:
  "confirmed_of mail (snd (route_login E clock form_username form_password s)) =
     confirmed_of mail s"
  by (simp add: route_login_def split_beta Let_def confirmed_of_kept
      split: option.split sum.split)

lemma confirmed_of_route_refresh_token:
  "confirmed_of mail (snd (route_refresh_token E clock token s)) = confirmed_of mail s"
  by (simp add: route_refresh_token_def split_beta Let_def confirmed_of_kept
      split: option.split sum.split)

lemma confirmed_of_route_request_email:
  "confirmed_of mail (snd (route_request_email body_email base_url s)) = confirmed_of mail s"
  by (simp add: route_request_email_def split_beta confirmed_of_kept split: option.split)

lemma confirmed_of_route_password_reset:
  "confirmed_of mail (snd (route_password_reset body_email base_url s)) = confirmed_of mail s"
  by (simp add: route_password_reset_def split_beta confirmed_of_kept split: option.split)

lemma confirmed_of_route_confirm_password_reset:
  "confirmed_of mail (snd (route_confirm_password_reset E token s)) = confirmed_of mail s"
  by (simp add: route_confirm_password_reset_def split_beta confirmed_of_kept
      split: option.split sum.split)

lemma confirmed_of_route_new_password:
  "confirmed_of mail (snd (route_new_password E body s)) = confirmed_of mail s"
  by (simp add: route_new_password_def split_beta Let_def confirmed_of_kept
      split: option.split sum.split)

lemma confirmed_of_get_current_user:
  "confirmed_of mail (snd (get_current_user E token s)) = confirmed_of mail s"
  by (simp add: get_current_user_def split_beta confirmed_of_kept
      split: option.split claim.split)

lemma confirmed_of_route_signup:
  assumes "confirmed_of mail s = Some b"
  shows "confirmed_of mail (snd (route_signup E now body base_url s)) = Some b"
proof -
  from assms have "confirmed_of mail (snd (get_user_by_email (model_email body) s)) = Some b"
    by (simp add: confirmed_of_get_user_by_email)
  from confirmed_of_create_user [OF this] assms
  show ?thesis
    by (simp add: route_signup_def split_beta confirmed_of_kept
        split: option.split sum.split)
qed

lemma confirmed_of_route_confirmed_email:
  assumes "confirmed_of mail s = Some True"
  shows "confirmed_of mail (snd (route_confirmed_email E token s)) = Some True"
  using assms
  by (simp add: route_confirmed_email_def split_beta confirmed_of_kept
      confirmed_of_confirmed_email split: option.split sum.split)

lemma exec_keeps_flag:
  assumes "\<not> is_confirm_email x" and "confirmed_of mail s = Some b"
  shows "confirmed_of mail (exec E clock x s) = Some b"
  using assms
  by (cases x)
     (simp_all add: is_confirm_email_def confirmed_of_route_signup confirmed_of_route_login
        confirmed_of_route_refresh_token confirmed_of_route_request_email
        confirmed_of_route_password_reset confirmed_of_route_confirm_password_reset
        confirmed_of_route_new_password confirmed_of_get_current_user
        confirmed_of_update_avatar)

lemma exec_keeps_confirmed:
  assumes "confirmed_of mail s = Some True"
  shows "confirmed_of mail (exec E clock x s) = Some True"
proof (cases "is_confirm_email x")
  case True
  then obtain token where "x = Confirm_email token"
    by (cases x) (simp_all add: is_confirm_email_def)
  with assms show ?thesis by (simp add: confirmed_of_route_confirmed_email)
next
  case False
  from exec_keeps_flag [OF False assms] show ?thesis .
qed

lemma run_keeps_confirmed:
  "confirmed_of mail s = Some True \<Longrightarrow> confirmed_of mail (run ops s) = Some True"
proof (induction ops arbitrary: s)
  case Nil
  then show ?case by simp
next
  case (Cons a ops)
  obtain E clock x where a: "a = (E, clock, x)" by (cases a)
  from Cons.prems have "confirmed_of mail (exec E clock x s) = Some True"
    by (rule exec_keeps_confirmed)
  then have "confirmed_of mail (run ops (exec E clock x s)) = Some True"
    by (rule Cons.IH)
  with a show ?case by simp
qed

lemma route_confirmed_email_already:
  assumes inv: "cache_consistent s"
    and dec: "decode_claims E token = Some p"
    and sub: "p ''sub'' = Some (Str mail)"
    and flag: "confirmed_of mail s = Some True"
  shows "fst (route_confirmed_email E token s) = Inr (Message ''Your email is already confirmed'')"
    and "db (snd (route_confirmed_email E token s)) = db s"
proof -
  from flag obtain u where found: "get_user_by_email_from_db mail (db s) = Some u"
    and conf: "confirmed u"
    by (auto simp: confirmed_of_def)
  obtain s1 where look: "get_user_by_email mail s = (Some u, s1)" and db1: "db s1 = db s"
    using get_user_by_email_found [OF inv found] by blast
  from dec sub have "get_email_from_token E token = Inr mail"
    by (simp add: get_email_from_token_def)
  with look conf have "route_confirmed_email E token s =
      (Inr (Message ''Your email is already confirmed''), s1)"
    by (simp add: route_confirmed_email_def)
  with db1 show "fst (route_confirmed_email E token s) =
      Inr (Message ''Your email is already confirmed'')"
    and "db (snd (route_confirmed_email E token s)) = db s"
    by simp_all
qed

text \<open>
  Claim C7. A row is created with \<open>confirmed = False\<close>. Whatever operations run, each
  with its own library behaviour and clock, a row that is confirmed stays confirmed.
  Every operation other than the confirm-email handler leaves the flag of every existing
  row as it is, so that handler is the only transition. When the row is already
  confirmed (and the cache agrees with the table), the confirm-email handler answers
  \<open>Your email is already confirmed\<close> and leaves the table as it is.
\<close>

theorem confirmed_flag_monotone:
  "(\<forall>u s'. create_user body now s = (Inr u, s') \<longrightarrow>
      confirmed u = False \<and> confirmed_of (model_email body) s' = Some False) \<and>
   (confirmed_of mail s = Some True \<longrightarrow> confirmed_of mail (run ops s) = Some True) \<and>
   (\<not> is_confirm_email x \<and> confirmed_of mail s = Some b \<longrightarrow>
      confirmed_of mail (exec E clock x s) = Some b) \<and>
   (cache_consistent s \<and> decode_claims E token = Some p \<and> p ''sub'' = Some (Str mail) \<and>
    confirmed_of mail s = Some True \<longrightarrow>
      fst (route_confirmed_email E token s) = Inr (Message ''Your email is already confirmed'') \<and>
      db (snd (route_confirmed_email E token s)) = db s)"
  using create_user_unconfirmed [of body now s]
    run_keeps_confirmed [of mail s ops]
    exec_keeps_flag [of x mail s b E clock]
    route_confirmed_email_already [of s E token p mail]
  by blast

theorem confirmed_flag_monotone_witness:
  "create_user ghost_body 5 empty_state =
     (Inr ghost, \<lparr>db = [ghost], redis_db = Map.empty, background_tasks = []\<rparr>) \<and>
   confirmed ghost = False \<and>
   confirmed_of ''alice@example.com'' alice_stored = Some True \<and>
   confirmed_of ''alice@example.com'' (run example_ops alice_stored) = Some True \<and>
   \<not> is_confirm_email (New_password \<lparr>request_email_field = ''bob@example.com'',
                                      request_password_field = ''another''\<rparr>) \<and>
   confirmed_of ''bob@example.com'' bob_stored = Some False \<and>
   confirmed_of ''bob@example.com''
     (exec example_env (\<lambda>k. 0)
        (New_password \<lparr>request_email_field = ''bob@example.com'',
                       request_password_field = ''another''\<rparr>) bob_stored) = Some False \<and>
   cache_consistent alice_stored \<and>
   decode_claims example_env ''mail.token'' =
     Some (email_token_payload 0 0 [''sub'' \<mapsto> Str ''alice@example.com'']) \<and>
   fst (route_confirmed_email example_env ''mail.token'' alice_stored) =
     Inr (Message ''Your email is already confirmed'') \<and>
   db (snd (route_confirmed_email example_env ''mail.token'' alice_stored)) = db alice_stored"
proof -
  let ?x = "New_password \<lparr>request_email_field = ''bob@example.com'',
                          request_password_field = ''another''\<rparr>"
  let ?p = "email_token_payload 0 0 [''sub'' \<mapsto> Str ''alice@example.com'']"
  have created: "create_user ghost_body 5 empty_state =
     (Inr ghost, \<lparr>db = [ghost], redis_db = Map.empty, background_tasks = []\<rparr>)"
    by (simp add: create_user_def ghost_body_def ghost_def empty_state_def next_id_def
        delete_if_cached_def Let_def)
  have alice_flag: "confirmed_of ''alice@example.com'' alice_stored = Some True"
    by (simp add: confirmed_of_def get_user_by_email_from_db_def alice_stored_def alice_def)
  have bob_flag: "confirmed_of ''bob@example.com'' bob_stored = Some False"
    by (simp add: confirmed_of_def get_user_by_email_from_db_def bob_stored_def bob_def)
  have other: "\<not> is_confirm_email ?x"
    by (simp add: is_confirm_email_def)
  have inv: "cache_consistent alice_stored"
    by (simp add: cache_consistent_def alice_stored_def)
  have dec: "decode_claims example_env ''mail.token'' = Some ?p"
    by (simp add: decode_claims_def example_env_def email_token_payload_def)
  have sub: "?p ''sub'' = Some (Str ''alice@example.com'')"
    by (simp add: email_token_payload_def)
  note th = confirmed_flag_monotone [of ghost_body 5 empty_state "''alice@example.com''"
      example_ops]
  note th_alice = confirmed_flag_monotone [of ghost_body 5 alice_stored "''alice@example.com''"
      example_ops ?x True example_env "\<lambda>k. 0" "''mail.token''" ?p]
  note th_bob = confirmed_flag_monotone [of ghost_body 5 bob_stored "''bob@example.com''"
      example_ops ?x False example_env "\<lambda>k. 0" "''mail.token''" ?p]
  from th created have 1: "confirmed ghost = False" by blast
  from th_alice alice_flag
  have 2: "confirmed_of ''alice@example.com'' (run example_ops alice_stored) = Some True"
    by blast
  from th_bob other bob_flag
  have 3: "confirmed_of ''bob@example.com'' (exec example_env (\<lambda>k. 0) ?x bob_stored) =
      Some False"
    by blast
  from th_alice inv dec sub alice_flag
  have 4: "fst (route_confirmed_email example_env ''mail.token'' alice_stored) =
     Inr (Message ''Your email is already confirmed'') \<and>
     db (snd (route_confirmed_email example_env ''mail.token'' alice_stored)) = db alice_stored"
    by blast
  from created 1 alice_flag 2 other bob_flag 3 inv dec 4 show ?thesis by simp
qed

section \<open>The cache agrees with the table in every reachable state\<close>

lemmas cache_consistent_kept =
  cache_consistent_get_user_by_email cache_consistent_create_user
  cache_consistent_update_token cache_consistent_confirmed_email
  cache_consistent_update_password cache_consistent_update_avatar cache_consistent_tasks

lemma cache_consistent_exec:
  assumes "cache_consistent s"
  shows "cache_consistent (exec E clock x s)"
proof (cases x)
  case (Signup now body base_url)
  with assms show ?thesis
    by (simp add: route_signup_def split_beta cache_consistent_kept
        split: option.split sum.split)
next
  case (Login form_username form_password)
  with assms show ?thesis
    by (simp add: route_login_def split_beta Let_def cache_consistent_kept
        split: option.split sum.split)
next
  case (Refresh token)
  with assms show ?thesis
    by (simp add: route_refresh_token_def split_beta Let_def cache_consistent_kept
        split: option.split sum.split)
next
  case (Confirm_email token)
  with assms show ?thesis
    by (simp add: route_confirmed_email_def split_beta cache_consistent_kept
        split: option.split sum.split)
next
  case (Request_email body_email base_url)
  with assms show ?thesis
    by (simp add: route_request_email_def split_beta cache_consistent_kept
        split: option.split)
next
  case (Password_reset body_email base_url)
  with assms show ?thesis
    by (simp add: route_password_reset_def split_beta cache_consistent_kept
        split: option.split)
next
  case (Confirm_password_reset token)
  with assms show ?thesis
    by (simp add: route_confirm_password_reset_def split_beta cache_consistent_kept
        split: option.split sum.split)
next
  case (New_password body)
  with assms show ?thesis
    by (simp add: route_new_password_def split_beta Let_def cache_consistent_kept
        split: option.split sum.split)
next
  case (Authenticate token)
  with assms show ?thesis
    by (simp add: get_current_user_def split_beta cache_consistent_kept
        split: option.split claim.split)
next
  case (Update_avatar m url)
  with assms show ?thesis
    by (simp add: cache_consistent_kept)
qed

lemma cache_consistent_run:
  "cache_consistent s \<Longrightarrow> cache_consistent (run ops s)"
proof (induction ops arbitrary: s)
  case Nil
  then show ?case by simp
next
  case (Cons a ops)
  obtain E clock x where a: "a = (E, clock, x)" by (cases a)
  from Cons.prems have "cache_consistent (exec E clock x s)"
    by (rule cache_consistent_exec)
  then have "cache_consistent (run ops (exec E clock x s))"
    by (rule Cons.IH)
  with a show ?case by simp
qed

lemma cache_consistent_reachable:
  "cache_consistent (run ops \<lparr>db = rows, redis_db = Map.empty, background_tasks = ts\<rparr>)"
  by (rule cache_consistent_run) (simp add: cache_consistent_def)

end
